theory Spec2Isabelle
  imports Complex_Main "HOL-Library.Monad_Syntax" "HOL-Library.Multiset"
begin

section \<open>Numbers and arrays\<close>

text \<open>
  The program computes with Python floats and numpy \<open>float64\<close> arrays. A float is
  modelled as a real number, with exact arithmetic: rounding, overflow and infinite
  values are outside the model. An array entry is a \<open>real option\<close>: \<open>Some r\<close> is
  the finite number \<open>r\<close>, \<open>None\<close> is \<open>nan\<close>, the entry that \<open>np.isnan\<close> detects and
  that every comparison rejects. A numeric parameter is modelled by its value; where
  the Python type of a number or the rounding of a float decides what the program
  does (the length of an \<open>np.arange\<close>, the element type of an \<open>np.vectorize\<close> result),
  it is part of the model.
\<close>

type_synonym npfloat = "real option"

text \<open>
  \<open>np.log10\<close> has a finite result on positive arguments only (numpy gives \<open>-inf\<close> at
  \<open>0\<close> and \<open>nan\<close> below, with a warning and without raising); the model has \<open>None\<close>
  there.
\<close>

definition np_log10 :: "real \<Rightarrow> npfloat" where
  "np_log10 v = (if 0 < v then Some (log 10 v) else None)"

section \<open>The propagation model: \<open>signal_strength_model\<close>\<close>

text \<open>
  The environment branches of \<open>signal_strength_model\<close>: the value of the local
  \<open>additional_loss\<close> after the \<open>if/elif\<close> chain on \<open>environment_type\<close> and before the
  clamp. An environment string that matches no branch leaves the initial \<open>0\<close>.
\<close>

definition additional_loss_unclamped :: "string \<Rightarrow> real \<Rightarrow> real \<Rightarrow> npfloat" where
  "additional_loss_unclamped environment_type distance frequency_mhz =
     (let distance_km = distance / 1000;
          distance_km = (if distance_km = 0 then 0.000001 else distance_km)
      in if environment_type = ''urban_dense'' then
           do { l1 \<leftarrow> np_log10 (distance + 1);
                l2 \<leftarrow> np_log10 (distance_km + 0.001);
                let clutter_factor = 20 + 0.1 * (frequency_mhz / 1000) * l1;
                let path_loss_exponent_factor = 18 * l2;
                Some (clutter_factor + path_loss_exponent_factor) }
         else if environment_type = ''urban_macro'' then
           do { l1 \<leftarrow> np_log10 (distance + 1);
                l2 \<leftarrow> np_log10 (distance_km + 0.001);
                let clutter_factor = 15 + 0.05 * (frequency_mhz / 1000) * l1;
                let path_loss_exponent_factor = 12 * l2;
                Some (clutter_factor + path_loss_exponent_factor) }
         else if environment_type = ''suburban'' then
           do { l2 \<leftarrow> np_log10 (distance_km + 0.001);
                let clutter_factor = 10;
                let path_loss_exponent_factor = 8 * l2;
                Some (clutter_factor + path_loss_exponent_factor) }
         else if environment_type = ''rural_macro'' then
           do { l2 \<leftarrow> np_log10 (distance_km + 0.001);
                let clutter_factor = 3;
                let path_loss_exponent_factor = 5 * l2;
                Some (clutter_factor + path_loss_exponent_factor) }
         else Some 0)"

text \<open>
  \<open>additional_loss = max(0, additional_loss)\<close>. Python's \<open>max(0, v)\<close> returns \<open>v\<close>
  only when \<open>v > 0\<close> holds, so it returns \<open>0\<close> on \<open>nan\<close>.
\<close>

definition additional_loss :: "string \<Rightarrow> real \<Rightarrow> real \<Rightarrow> real" where
  "additional_loss environment_type distance frequency_mhz =
     (case additional_loss_unclamped environment_type distance frequency_mhz of
        None \<Rightarrow> 0
      | Some v \<Rightarrow> max 0 v)"

text \<open>\<open>fspl_m = 20 * np.log10(distance) + 20 * np.log10(frequency_mhz) - 27.55\<close>\<close>

definition fspl_m :: "real \<Rightarrow> real \<Rightarrow> npfloat" where
  "fspl_m distance frequency_mhz =
     do { ld \<leftarrow> np_log10 distance;
          lf \<leftarrow> np_log10 frequency_mhz;
          Some (20 * ld + 20 * lf - 27.55) }"

definition signal_strength_model :: "real \<Rightarrow> real \<Rightarrow> real \<Rightarrow> real \<Rightarrow> string \<Rightarrow> npfloat" where
  "signal_strength_model distance transmit_power_dbm frequency_mhz antenna_gain_dbi
       environment_type =
     (if distance \<le> 0 then Some (transmit_power_dbm - 200)
      else if frequency_mhz \<le> 0 then Some (transmit_power_dbm - 300)
      else
        do { fspl \<leftarrow> fspl_m distance frequency_mhz;
             let path_loss = fspl + additional_loss environment_type distance frequency_mhz;
             let eirp_dbm = transmit_power_dbm + antenna_gain_dbi;
             let received_power_dbm = eirp_dbm - path_loss;
             Some received_power_dbm })"

section \<open>Arrays\<close>

text \<open>
  A two-dimensional array is the list of its rows. \<open>np_shape\<close> is \<open>a.shape\<close> and
  \<open>np_size\<close> is \<open>a.size\<close>; all rows of an array have the same length (\<open>rect\<close>).
\<close>

definition np_shape :: "'a list list \<Rightarrow> nat \<times> nat" where
  "np_shape a = (length a, case a of [] \<Rightarrow> 0 | r # _ \<Rightarrow> length r)"

definition np_size :: "'a list list \<Rightarrow> nat" where
  "np_size a = length (concat a)"

definition rect :: "'a list list \<Rightarrow> bool" where
  "rect a = list_all (\<lambda>r. length r = snd (np_shape a)) a"

section \<open>The grid builder: \<open>create_grid\<close>\<close>

datatype error = ValueError | KeyError | MemoryError

text \<open>
  Two things that the arithmetic of reals does not fix are parameters of the grid
  builder. \<open>fl\<close> is the rounding of a real number to a float: numpy computes the length
  of a range in floats, so the rounding can change the number of samples (exact
  arithmetic is \<open>fl = (\<lambda>v. v)\<close>). \<open>alloc n\<close> is the answer of the allocator for an array
  of \<open>n\<close> elements: \<open>None\<close> when the array is created, the error raised otherwise
  (\<open>MemoryError\<close>, or \<open>ValueError\<close> for a size beyond the address space).
\<close>

text \<open>
  The length of \<open>np.arange(start, stop, step)\<close>: the ceiling of the float quotient
  \<open>(stop - start) / step\<close>; a quotient that underflows to zero gives length \<open>1\<close>, or
  \<open>0\<close> when it is negative.
\<close>

definition arange_length :: "(real \<Rightarrow> real) \<Rightarrow> real \<Rightarrow> real \<Rightarrow> real \<Rightarrow> int" where
  "arange_length fl start stop step =
     (let delta = fl (stop - start);
          val = fl (delta / step)
      in if val = 0 \<and> delta \<noteq> 0 then (if delta / step < 0 then 0 else 1)
         else \<lceil>val\<rceil>)"

text \<open>
  The elements: \<open>start\<close>, then \<open>next = start + step\<close>, then \<open>start + i * delta\<close> with
  \<open>delta = next - start\<close>.
\<close>

definition arange_values :: "(real \<Rightarrow> real) \<Rightarrow> real \<Rightarrow> real \<Rightarrow> nat \<Rightarrow> real list" where
  "arange_values fl start step n =
     (let next = fl (start + step);
          delta = fl (next - start)
      in map (\<lambda>i. if i = 0 then start else if i = 1 then next
                   else fl (start + fl (real i * delta))) [0 ..< n])"

text \<open>
  \<open>np.arange\<close> raises \<open>ValueError\<close> (maximum allowed size exceeded) when the length
  is beyond the range of a signed 64-bit index, returns the empty array for a length
  that is not positive, and otherwise allocates and fills the array.
\<close>

definition np_arange ::
  "(real \<Rightarrow> real) \<Rightarrow> (nat \<Rightarrow> error option) \<Rightarrow> real \<Rightarrow> real \<Rightarrow> real \<Rightarrow> error + real list" where
  "np_arange fl alloc start stop step =
     (let len = arange_length fl start stop step
      in if len < - (2 ^ 63) \<or> 2 ^ 63 < len then Inl ValueError
         else if len \<le> 0 then Inr []
         else (case alloc (nat len) of
                 Some e \<Rightarrow> Inl e
               | None \<Rightarrow> Inr (arange_values fl start step (nat len))))"

text \<open>
  \<open>np.meshgrid(x, y)\<close>: two arrays of \<open>len(y)\<close> rows and \<open>len(x)\<close> columns; row \<open>i\<close> of
  the first is \<open>x\<close>, row \<open>i\<close> of the second repeats \<open>y[i]\<close>.
\<close>

definition np_meshgrid ::
  "(nat \<Rightarrow> error option) \<Rightarrow> real list \<Rightarrow> real list
     \<Rightarrow> error + (real list list \<times> real list list)" where
  "np_meshgrid alloc x y =
     (case alloc (length y * length x) of
        Some e \<Rightarrow> Inl e
      | None \<Rightarrow> Inr (map (\<lambda>_. x) y, map (\<lambda>v. map (\<lambda>_. v) x) y))"

definition create_grid ::
  "(real \<Rightarrow> real) \<Rightarrow> (nat \<Rightarrow> error option) \<Rightarrow> real \<Rightarrow> real \<Rightarrow> real \<Rightarrow> real \<Rightarrow> real
     \<Rightarrow> error + (real list list \<times> real list list)" where
  "create_grid fl alloc x_min x_max y_min y_max step =
     (if step \<le> 0 then Inl ValueError
      else
        (case np_arange fl alloc x_min (fl (x_max + step)) step of
           Inl e \<Rightarrow> Inl e
         | Inr x \<Rightarrow>
            (case np_arange fl alloc y_min (fl (y_max + step)) step of
               Inl e \<Rightarrow> Inl e
             | Inr y \<Rightarrow>
                let x = (if x_min \<ge> x_max then [x_min] else x);
                    y = (if y_min \<ge> y_max then [y_min] else y)
                in np_meshgrid alloc x y)))"

section \<open>The field evaluator: \<open>simulate_signal_strength\<close>\<close>

text \<open>
  The transmit power reaches the field evaluator as a Python int or a Python float.
\<close>

datatype pynum = PyInt int | PyFloat real

fun num_value :: "pynum \<Rightarrow> real" where
  "num_value (PyInt i) = of_int i"
| "num_value (PyFloat v) = v"

text \<open>
  The Python type of a result of \<open>signal_strength_model\<close>: the sentinel results
  \<open>transmit_power_dbm - 200\<close> and \<open>transmit_power_dbm - 300\<close> are ints when the power is
  an int; every other result passes through \<open>np.log10\<close> and is a float.
\<close>

definition result_is_int :: "pynum \<Rightarrow> real \<Rightarrow> real \<Rightarrow> bool" where
  "result_is_int transmit_power_dbm distance frequency_mhz =
     (case transmit_power_dbm of
        PyInt _ \<Rightarrow> distance \<le> 0 \<or> frequency_mhz \<le> 0
      | PyFloat _ \<Rightarrow> False)"

text \<open>\<open>int(v)\<close> truncates towards zero.\<close>

definition py_int :: "real \<Rightarrow> int" where
  "py_int v = (if 0 \<le> v then \<lfloor>v\<rfloor> else \<lceil>v\<rceil>)"

text \<open>
  \<open>np.vectorize(pyfunc)(arg)\<close> without \<open>otypes\<close>: it raises \<open>ValueError\<close> on an array
  of size \<open>0\<close>; it calls the function on the first entry and takes the element type of
  the result array from that result; then it applies the function to every entry and
  converts the results to that type. Into an integer array a float is truncated, and
  \<open>nan\<close> cannot be converted. An integer array is represented by its values.
\<close>

definition np_vectorize ::
  "(real \<Rightarrow> npfloat) \<Rightarrow> (real \<Rightarrow> bool) \<Rightarrow> real list list \<Rightarrow> error + npfloat list list" where
  "np_vectorize pyfunc returns_int arg =
     (case concat arg of
        [] \<Rightarrow> Inl ValueError
      | first # _ \<Rightarrow>
          let outputs = map (map pyfunc) arg
          in if returns_int first then
               (if None \<in> set (concat outputs) then Inl ValueError
                else Inr (map (map (map_option (\<lambda>v. of_int (py_int v)))) outputs))
             else Inr outputs)"

text \<open>
  \<open>base_station_params\<close> is a dictionary read at the keys \<open>x\<close> and \<open>y\<close>. The two
  arrays of a grid come from \<open>np.meshgrid\<close> and have the same shape; the element-wise
  operations are modelled for such arrays.
\<close>

definition simulate_signal_strength ::
  "real list list \<times> real list list \<Rightarrow> (string \<rightharpoonup> real) \<Rightarrow> pynum \<Rightarrow> real \<Rightarrow> real \<Rightarrow> string
     \<Rightarrow> error + npfloat list list" where
  "simulate_signal_strength grid base_station_params transmit_power_dbm frequency_mhz
       antenna_gain_dbi environment_type =
     (let (xx, yy) = grid in
      case base_station_params ''x'' of
        None \<Rightarrow> Inl KeyError
      | Some bs_x \<Rightarrow>
         (case base_station_params ''y'' of
            None \<Rightarrow> Inl KeyError
          | Some bs_y \<Rightarrow>
             let distances =
                   (if np_shape xx = (1, 1) \<and> np_shape yy = (1, 1)
                    then [[sqrt ((xx ! 0 ! 0 - bs_x)\<^sup>2 + (yy ! 0 ! 0 - bs_y)\<^sup>2)]]
                    else map2 (map2 (\<lambda>x y. sqrt ((x - bs_x)\<^sup>2 + (y - bs_y)\<^sup>2))) xx yy)
             in np_vectorize
                  (\<lambda>distance. signal_strength_model distance (num_value transmit_power_dbm)
                                frequency_mhz antenna_gain_dbi environment_type)
                  (\<lambda>distance. result_is_int transmit_power_dbm distance frequency_mhz)
                  distances))"

section \<open>Statistics: \<open>_generate_analysis_report\<close> and \<open>_plot_cdf_results\<close>\<close>

text \<open>
  Comparisons of an array with a number are false at \<open>nan\<close>; \<open>np.sum\<close> of a boolean
  array counts the entries that are true.
\<close>

definition np_isnan :: "npfloat \<Rightarrow> bool" where
  "np_isnan v = (v = None)"

definition np_ge :: "npfloat \<Rightarrow> real \<Rightarrow> bool" where
  "np_ge v t = (case v of None \<Rightarrow> False | Some r \<Rightarrow> t \<le> r)"

definition np_lt :: "npfloat \<Rightarrow> real \<Rightarrow> bool" where
  "np_lt v t = (case v of None \<Rightarrow> False | Some r \<Rightarrow> r < t)"

definition np_count :: "(npfloat \<Rightarrow> bool) \<Rightarrow> npfloat list list \<Rightarrow> nat" where
  "np_count P a = length (filter P (concat a))"

text \<open>
  The dictionary \<open>cat_counts\<close>, in the order of its keys, with the thresholds
  \<open>excellent_rsrp, good_rsrp, fair_rsrp, poor_rsrp = -80, -95, -105, -115\<close>.
\<close>

definition cat_counts :: "npfloat list list \<Rightarrow> (string \<times> nat) list" where
  "cat_counts strengths_data =
     (let excellent_rsrp = - 80; good_rsrp = - 95; fair_rsrp = - 105; poor_rsrp = - 115 in
      [(''excellent'', np_count (\<lambda>v. np_ge v excellent_rsrp) strengths_data),
       (''good'', np_count (\<lambda>v. np_ge v good_rsrp \<and> np_lt v excellent_rsrp) strengths_data),
       (''fair'', np_count (\<lambda>v. np_ge v fair_rsrp \<and> np_lt v good_rsrp) strengths_data),
       (''marginal'', np_count (\<lambda>v. np_ge v poor_rsrp \<and> np_lt v fair_rsrp) strengths_data),
       (''poor'', np_count (\<lambda>v. np_lt v poor_rsrp) strengths_data)])"

text \<open>
  The table of \<open>_generate_analysis_report\<close>: one row per quality tier with its count
  and its percentage, or \<open>None\<close> when the function returns before the table (empty or
  all-\<open>nan\<close> data, the display keeps its initial text). The extrema, the mean and the
  markup of the report are not part of the model.
\<close>

definition generate_analysis_report :: "npfloat list list \<Rightarrow> (string \<times> nat \<times> real) list option" where
  "generate_analysis_report strengths_data =
     (if np_size strengths_data = 0 \<or> list_all np_isnan (concat strengths_data) then None
      else
        let total_points = (if np_size strengths_data > 0 then np_size strengths_data else 1)
        in Some (map (\<lambda>(name, count).
                   (name, count,
                    if total_points > 0 then (real count / real total_points) * 100 else 0))
                 (cat_counts strengths_data)))"

text \<open>
  The curve of \<open>_plot_cdf_results\<close>: the sorted values and their probabilities
  \<open>yvals\<close>, or \<open>None\<close> when there is nothing to plot.
\<close>

definition plot_cdf_results :: "npfloat list list \<Rightarrow> (real list \<times> real list) option" where
  "plot_cdf_results strengths_data =
     (if np_size strengths_data = 0 \<or> list_all np_isnan (concat strengths_data) then None
      else
        let data_flat = concat strengths_data;
            data_flat = [r. Some r \<leftarrow> data_flat]
        in if length data_flat = 0 then None
           else
             let sorted_data = sort data_flat;
                 yvals = map (\<lambda>r. real r /
                                real (if length sorted_data > 1 then length sorted_data - 1 else 1))
                             [0 ..< length sorted_data]
             in Some (sorted_data, yvals))"

section \<open>Facts about the propagation model\<close>

lemma np_log10_pos: "0 < v \<Longrightarrow> np_log10 v = Some (log 10 v)"
  by (simp add: np_log10_def)

lemma fspl_m_pos:
  "0 < distance \<Longrightarrow> 0 < frequency_mhz \<Longrightarrow>
   fspl_m distance frequency_mhz = Some (20 * log 10 distance + 20 * log 10 frequency_mhz - 27.55)"
  by (simp add: fspl_m_def np_log10_pos)

lemma signal_strength_model_pos:
  "0 < distance \<Longrightarrow> 0 < frequency_mhz \<Longrightarrow>
   signal_strength_model distance tx frequency_mhz gain env =
     Some ((tx + gain) - ((20 * log 10 distance + 20 * log 10 frequency_mhz - 27.55)
                          + additional_loss env distance frequency_mhz))"
  by (simp add: signal_strength_model_def fspl_m_pos)

lemma additional_loss_urban_dense:
  "0 < distance \<Longrightarrow>
   additional_loss ''urban_dense'' distance frequency_mhz =
     max 0 (20 + 0.1 * (frequency_mhz / 1000) * log 10 (distance + 1)
            + 18 * log 10 (distance / 1000 + 0.001))"
  by (simp add: additional_loss_def additional_loss_unclamped_def np_log10_pos)

lemma additional_loss_urban_macro:
  "0 < distance \<Longrightarrow>
   additional_loss ''urban_macro'' distance frequency_mhz =
     max 0 (15 + 0.05 * (frequency_mhz / 1000) * log 10 (distance + 1)
            + 12 * log 10 (distance / 1000 + 0.001))"
  by (simp add: additional_loss_def additional_loss_unclamped_def np_log10_pos)

lemma additional_loss_suburban:
  "0 < distance \<Longrightarrow>
   additional_loss ''suburban'' distance frequency_mhz =
     max 0 (10 + 8 * log 10 (distance / 1000 + 0.001))"
  by (simp add: additional_loss_def additional_loss_unclamped_def np_log10_pos)

lemma additional_loss_rural_macro:
  "0 < distance \<Longrightarrow>
   additional_loss ''rural_macro'' distance frequency_mhz =
     max 0 (3 + 5 * log 10 (distance / 1000 + 0.001))"
  by (simp add: additional_loss_def additional_loss_unclamped_def np_log10_pos)

lemma additional_loss_other:
  "environment_type \<notin> {''urban_dense'', ''urban_macro'', ''suburban'', ''rural_macro''} \<Longrightarrow>
   additional_loss environment_type distance frequency_mhz = 0"
  by (simp add: additional_loss_def additional_loss_unclamped_def)

lemma log10_1000: "log 10 1000 = 3"
proof -
  have "log 10 (10 ^ 3) = real 3"
    by (rule log_pow_cancel) simp_all
  then show ?thesis by simp
qed

section \<open>The sentinel results\<close>

text \<open>
  C4. For every input with \<open>distance \<le> 0\<close> the model returns exactly
  \<open>transmit_power_dbm - 200\<close>, whatever the other parameters are; the result is a
  value (\<open>Some\<close>), never a failure.
\<close>

theorem distance_sentinel:
  "distance \<le> 0 \<Longrightarrow>
   signal_strength_model distance transmit_power_dbm frequency_mhz antenna_gain_dbi
     environment_type = Some (transmit_power_dbm - 200)"
  by (simp add: signal_strength_model_def)

theorem distance_sentinel_witness:
  "(-5::real) \<le> 0 \<and> signal_strength_model (-5) 40 0 17 ''nowhere'' = Some (40 - 200)"
  using distance_sentinel [of "-5" 40 0 17 "''nowhere''"] by simp

text \<open>
  C2, as stated: a frequency \<open>\<le> 0\<close> gives \<open>transmit_power_dbm - 300\<close> for any distance.
  The distance test comes first in the code, so at distance \<open>0\<close> and frequency \<open>0\<close> the
  result is \<open>transmit_power_dbm - 200\<close>.
\<close>

theorem frequency_sentinel_any_distance_counterexample:
  "signal_strength_model 0 0 0 0 ''urban_dense'' = Some (- 200) \<and>
   signal_strength_model 0 0 0 0 ''urban_dense'' \<noteq> Some (0 - 300)"
  by (simp add: signal_strength_model_def)

text \<open>
  C2, amended. For every input with \<open>distance > 0\<close> and \<open>frequency_mhz \<le> 0\<close> the model
  returns exactly \<open>transmit_power_dbm - 300\<close>, whatever the other parameters are.
\<close>

theorem frequency_sentinel:
  "0 < distance \<Longrightarrow> frequency_mhz \<le> 0 \<Longrightarrow>
   signal_strength_model distance transmit_power_dbm frequency_mhz antenna_gain_dbi
     environment_type = Some (transmit_power_dbm - 300)"
  by (simp add: signal_strength_model_def)

theorem frequency_sentinel_witness:
  "(0::real) < 100 \<and> (-1::real) \<le> 0 \<and>
   signal_strength_model 100 40 (-1) 17 ''suburban'' = Some (40 - 300)"
  using frequency_sentinel [of 100 "-1" 40 17 "''suburban''"] by simp

section \<open>The path-loss formula\<close>

text \<open>
  C1, as stated: in \<open>urban_dense\<close> the exponent term is
  \<open>18 * log10 (max (distance / 1000) 0.001)\<close>. The code adds \<open>0.001\<close> to the distance in
  kilometres instead of taking the maximum. At distance \<open>999\<close> and frequency \<open>1000\<close>
  (power and gain \<open>0\<close>) the code's exponent term is \<open>18 * log10 1 = 0\<close>, the stated
  one is \<open>18 * log10 0.999 < 0\<close>, and the two results differ.
\<close>

theorem urban_dense_max_formula_counterexample:
  "signal_strength_model 999 0 1000 0 ''urban_dense'' \<noteq>
   Some ((0 + 0) - ((20 * log 10 999 + 20 * log 10 1000 - 27.55)
          + max 0 ((20 + 0.1 * (1000 / 1000) * log 10 (999 + 1))
                   + 18 * log 10 (max (999 / 1000) 0.001))))"
proof -
  have neg: "log 10 (999 / 1000) < 0"
    by simp
  have code: "additional_loss ''urban_dense'' 999 1000 = 203 / 10"
    by (simp add: additional_loss_urban_dense log10_1000)
  have arg: "max (999 / 1000) 0.001 = (999 / 1000 :: real)"
    by simp
  have clutter: "20 + 0.1 * (1000 / 1000) * log 10 (999 + 1) = (203 / 10 :: real)"
    by (simp add: log10_1000)
  have "max 0 (203 / 10 + 18 * l) \<noteq> 203 / 10" if "l < 0" for l :: real
    using that by (simp add: max_def)
  from this [OF neg]
  have stated: "max 0 ((20 + 0.1 * (1000 / 1000) * log 10 (999 + 1))
                   + 18 * log 10 (max (999 / 1000) 0.001)) \<noteq> (203 / 10 :: real)"
    unfolding arg clutter .
  show ?thesis
    using stated by (simp add: signal_strength_model_pos code)
qed

text \<open>
  C1, amended. For every \<open>distance > 0\<close> and \<open>frequency_mhz > 0\<close>, in environment
  \<open>urban_dense\<close> the model returns \<open>(tx_power_dbm + antenna_gain_dbi) - (FSPL +
  additional_loss)\<close>, where \<open>FSPL = 20 * log10 distance + 20 * log10 frequency_mhz -
  27.55\<close> and \<open>additional_loss = max 0 (clutter + exponent_term)\<close> with \<open>clutter = 20 +
  0.1 * (frequency_mhz / 1000) * log10 (distance + 1)\<close> and \<open>exponent_term = 18 * log10
  (distance / 1000 + 0.001)\<close>.
\<close>

theorem urban_dense_formula:
  "0 < distance \<Longrightarrow> 0 < frequency_mhz \<Longrightarrow>
   signal_strength_model distance tx_power_dbm frequency_mhz antenna_gain_dbi ''urban_dense'' =
     Some ((tx_power_dbm + antenna_gain_dbi)
           - ((20 * log 10 distance + 20 * log 10 frequency_mhz - 27.55)
              + max 0 ((20 + 0.1 * (frequency_mhz / 1000) * log 10 (distance + 1))
                       + 18 * log 10 (distance / 1000 + 0.001))))"
  by (simp add: signal_strength_model_pos additional_loss_urban_dense)

theorem urban_dense_formula_witness:
  "(0::real) < 999 \<and> (0::real) < 1000 \<and>
   signal_strength_model 999 40 1000 17 ''urban_dense'' =
     Some ((40 + 17)
           - ((20 * log 10 999 + 20 * log 10 1000 - 27.55)
              + max 0 ((20 + 0.1 * (1000 / 1000) * log 10 (999 + 1))
                       + 18 * log 10 (999 / 1000 + 0.001))))"
  using urban_dense_formula [of 999 1000 40 17] by simp

text \<open>
  C10. For every \<open>distance > 0\<close> and \<open>frequency_mhz > 0\<close>, an environment string that is
  none of \<open>urban_dense\<close>, \<open>urban_macro\<close>, \<open>suburban\<close>, \<open>rural_macro\<close> gives an
  additional loss of \<open>0\<close>, and the model returns the free-space result
  \<open>(tx_power_dbm + antenna_gain_dbi) - FSPL\<close> as a value, without failing.
\<close>

theorem unknown_environment_free_space:
  "0 < distance \<Longrightarrow> 0 < frequency_mhz \<Longrightarrow>
   environment_type \<notin> {''urban_dense'', ''urban_macro'', ''suburban'', ''rural_macro''} \<Longrightarrow>
   additional_loss environment_type distance frequency_mhz = 0 \<and>
   signal_strength_model distance tx_power_dbm frequency_mhz antenna_gain_dbi environment_type =
     Some ((tx_power_dbm + antenna_gain_dbi)
           - (20 * log 10 distance + 20 * log 10 frequency_mhz - 27.55))"
  by (simp add: signal_strength_model_pos additional_loss_other)

theorem unknown_environment_free_space_witness:
  "(0::real) < 100 \<and> (0::real) < 2600 \<and>
   ''indoor'' \<notin> {''urban_dense'', ''urban_macro'', ''suburban'', ''rural_macro''} \<and>
   additional_loss ''indoor'' 100 2600 = 0 \<and>
   signal_strength_model 100 40 2600 17 ''indoor'' =
     Some ((40 + 17) - (20 * log 10 100 + 20 * log 10 2600 - 27.55))"
  using unknown_environment_free_space [of 100 2600 "''indoor''" 40 17] by simp

section \<open>Monotonicity in the distance\<close>

lemma affine_mono:
  fixes a1 a2 l1 l2 b c k :: real
  shows "0 \<le> c \<Longrightarrow> 0 \<le> k \<Longrightarrow> a1 \<le> a2 \<Longrightarrow> l1 \<le> l2 \<Longrightarrow>
         b + c * a1 + k * l1 \<le> b + c * a2 + k * l2"
  by (simp add: add_mono mult_left_mono)

lemma max0_mono:
  fixes u v :: real
  shows "u \<le> v \<Longrightarrow> max 0 u \<le> max 0 v"
  by (simp add: max.coboundedI2)

lemma additional_loss_mono:
  assumes "0 < d1" "d1 \<le> d2" "0 < frequency_mhz"
  shows "additional_loss env d1 frequency_mhz \<le> additional_loss env d2 frequency_mhz"
proof -
  have d2: "0 < d2" using assms by simp
  have L: "log 10 (d1 / 1000 + 0.001) \<le> log 10 (d2 / 1000 + 0.001)"
    using assms by simp
  have M: "log 10 (d1 + 1) \<le> log 10 (d2 + 1)"
    using assms by simp
  have G: "0 \<le> frequency_mhz / 1000"
    using assms by simp
  have GM: "(frequency_mhz / 1000) * log 10 (d1 + 1) \<le> (frequency_mhz / 1000) * log 10 (d2 + 1)"
    using M G by (rule mult_left_mono)
  consider "env = ''urban_dense''" | "env = ''urban_macro''" | "env = ''suburban''"
    | "env = ''rural_macro''"
    | "env \<notin> {''urban_dense'', ''urban_macro'', ''suburban'', ''rural_macro''}"
    by blast
  then show ?thesis
  proof cases
    case 1
    have "20 + 0.1 * ((frequency_mhz / 1000) * log 10 (d1 + 1)) + 18 * log 10 (d1 / 1000 + 0.001)
        \<le> 20 + 0.1 * ((frequency_mhz / 1000) * log 10 (d2 + 1)) + 18 * log 10 (d2 / 1000 + 0.001)"
      using GM L by (intro affine_mono) simp_all
    then show ?thesis
      unfolding 1 additional_loss_urban_dense [OF assms(1)] additional_loss_urban_dense [OF d2]
        mult.assoc by (rule max0_mono)
  next
    case 2
    have "15 + 0.05 * ((frequency_mhz / 1000) * log 10 (d1 + 1)) + 12 * log 10 (d1 / 1000 + 0.001)
        \<le> 15 + 0.05 * ((frequency_mhz / 1000) * log 10 (d2 + 1)) + 12 * log 10 (d2 / 1000 + 0.001)"
      using GM L by (intro affine_mono) simp_all
    then show ?thesis
      unfolding 2 additional_loss_urban_macro [OF assms(1)] additional_loss_urban_macro [OF d2]
        mult.assoc by (rule max0_mono)
  next
    case 3
    have "10 + 8 * log 10 (d1 / 1000 + 0.001) \<le> 10 + 8 * log 10 (d2 / 1000 + 0.001)"
      using L by linarith
    then show ?thesis
      unfolding 3 additional_loss_suburban [OF assms(1)] additional_loss_suburban [OF d2]
      by (rule max0_mono)
  next
    case 4
    have "3 + 5 * log 10 (d1 / 1000 + 0.001) \<le> 3 + 5 * log 10 (d2 / 1000 + 0.001)"
      using L by linarith
    then show ?thesis
      unfolding 4 additional_loss_rural_macro [OF assms(1)] additional_loss_rural_macro [OF d2]
      by (rule max0_mono)
  next
    case 5
    then show ?thesis
      by (simp add: additional_loss_other)
  qed
qed

text \<open>
  C6. For every transmit power, antenna gain, environment string and frequency
  \<open>> 0\<close>, the received power does not increase with the distance over positive
  distances: for \<open>0 < d1 \<le> d2\<close> both calls return a value, and the value at \<open>d2\<close> is at
  most the value at \<open>d1\<close>.
\<close>

theorem power_antitone_in_distance:
  assumes "0 < d1" "d1 \<le> d2" "0 < frequency_mhz"
  shows "\<exists>p1 p2. signal_strength_model d1 tx frequency_mhz gain env = Some p1 \<and>
                 signal_strength_model d2 tx frequency_mhz gain env = Some p2 \<and> p2 \<le> p1"
proof -
  have d2: "0 < d2" using assms by simp
  have "log 10 d1 \<le> log 10 d2"
    using assms by simp
  moreover have "additional_loss env d1 frequency_mhz \<le> additional_loss env d2 frequency_mhz"
    using assms by (rule additional_loss_mono)
  ultimately have
    "(tx + gain) - ((20 * log 10 d2 + 20 * log 10 frequency_mhz - 27.55)
                    + additional_loss env d2 frequency_mhz)
     \<le> (tx + gain) - ((20 * log 10 d1 + 20 * log 10 frequency_mhz - 27.55)
                    + additional_loss env d1 frequency_mhz)"
    by linarith
  then show ?thesis
    unfolding signal_strength_model_pos [OF assms(1) assms(3)]
      signal_strength_model_pos [OF d2 assms(3)]
    by blast
qed

theorem power_antitone_in_distance_witness:
  "(0::real) < 10 \<and> (10::real) \<le> 500 \<and> (0::real) < 2600 \<and>
   (\<exists>p1 p2. signal_strength_model 10 40 2600 17 ''urban_macro'' = Some p1 \<and>
            signal_strength_model 500 40 2600 17 ''urban_macro'' = Some p2 \<and> p2 \<le> p1)"
  using power_antitone_in_distance [of 10 500 2600 40 17 "''urban_macro''"] by simp

section \<open>Ordering of the environments\<close>

lemma log10_100: "log 10 100 = 2"
proof -
  have "log 10 (10 ^ 2) = real 2"
    by (rule log_pow_cancel) simp_all
  then show ?thesis by simp
qed

lemma log10_tenth: "log 10 (1 / 10) = - 1"
  by (simp add: log_divide)

text \<open>
  The clamp saturates at different distances in different environments, so the
  ordering needs the losses to be positive: at \<open>99\<close> metres and \<open>1000\<close> MHz the loss of
  \<open>rural_macro\<close> is clamped to \<open>0\<close>, and \<open>urban_macro\<close> (\<open>3.1\<close>) exceeds
  \<open>urban_dense\<close> (\<open>2.2\<close>).
\<close>

lemma additional_loss_at_99:
  "additional_loss ''rural_macro'' 99 1000 = 0"
  "additional_loss ''suburban'' 99 1000 = 2"
  "additional_loss ''urban_macro'' 99 1000 = 31 / 10"
  "additional_loss ''urban_dense'' 99 1000 = 22 / 10"
  by (simp_all add: additional_loss_rural_macro additional_loss_suburban
      additional_loss_urban_macro additional_loss_urban_dense log10_100 log10_tenth)

text \<open>
  C9. For every distance \<open>> 0\<close> and frequency \<open>> 0\<close> at which the clamped additional
  losses of the four environments are positive, the additional loss added to the
  free-space loss is ordered \<open>rural_macro \<le> suburban \<le> urban_macro \<le> urban_dense\<close>.
\<close>

theorem additional_loss_ordering:
  assumes "0 < distance" "0 < frequency_mhz"
    and "\<forall>env \<in> {''rural_macro'', ''suburban'', ''urban_macro'', ''urban_dense''}.
           0 < additional_loss env distance frequency_mhz"
  shows "additional_loss ''rural_macro'' distance frequency_mhz
           \<le> additional_loss ''suburban'' distance frequency_mhz \<and>
         additional_loss ''suburban'' distance frequency_mhz
           \<le> additional_loss ''urban_macro'' distance frequency_mhz \<and>
         additional_loss ''urban_macro'' distance frequency_mhz
           \<le> additional_loss ''urban_dense'' distance frequency_mhz"
proof -
  define l where "l = log 10 (distance / 1000 + 0.001)"
  define gm where "gm = (frequency_mhz / 1000) * log 10 (distance + 1)"
  have "0 \<le> log 10 (distance + 1)"
    using assms(1) by simp
  then have gm: "0 \<le> gm"
    using assms(2) by (simp add: gm_def)
  have "0 < additional_loss ''rural_macro'' distance frequency_mhz"
    using assms(3) by simp
  then have l: "0 < 3 + 5 * l"
    using assms(1) by (simp add: additional_loss_rural_macro l_def)
  have "max 0 (3 + 5 * l) \<le> max 0 (10 + 8 * l)"
    and "max 0 (10 + 8 * l) \<le> max 0 (15 + 0.05 * gm + 12 * l)"
    and "max 0 (15 + 0.05 * gm + 12 * l) \<le> max 0 (20 + 0.1 * gm + 18 * l)"
    using l gm by simp_all
  then show ?thesis
    using assms(1)
    by (simp add: additional_loss_rural_macro additional_loss_suburban
        additional_loss_urban_macro additional_loss_urban_dense l_def gm_def mult.assoc)
qed

theorem additional_loss_ordering_witness:
  "(0::real) < 999 \<and> (0::real) < 1000 \<and>
   0 < additional_loss ''rural_macro'' 999 1000 \<and>
   0 < additional_loss ''suburban'' 999 1000 \<and>
   0 < additional_loss ''urban_macro'' 999 1000 \<and>
   0 < additional_loss ''urban_dense'' 999 1000 \<and>
   additional_loss ''rural_macro'' 999 1000 \<le> additional_loss ''suburban'' 999 1000 \<and>
   additional_loss ''suburban'' 999 1000 \<le> additional_loss ''urban_macro'' 999 1000 \<and>
   additional_loss ''urban_macro'' 999 1000 \<le> additional_loss ''urban_dense'' 999 1000"
proof -
  have pos: "\<forall>env \<in> {''rural_macro'', ''suburban'', ''urban_macro'', ''urban_dense''}.
      0 < additional_loss env 999 1000"
    by (simp add: additional_loss_rural_macro additional_loss_suburban
        additional_loss_urban_macro additional_loss_urban_dense log10_1000)
  show ?thesis
    using pos additional_loss_ordering [of 999 1000, OF _ _ pos] by simp
qed

section \<open>The grid builder\<close>





lemma create_grid_example:
  "create_grid (\<lambda>v. v) (\<lambda>n. None) 0 20 0 10 10 =
     Inr ([[0, 10, 20], [0, 10, 20]], [[0, 0, 0], [10, 10, 10]])"
  by (simp add: create_grid_def np_arange_def arange_length_def arange_values_def
      np_meshgrid_def Let_def upt_rec)

text \<open>Equal bounds give the grid of one point.\<close>

lemma create_grid_point:
  "create_grid (\<lambda>v. v) (\<lambda>n. None) 5 5 0 0 1 = Inr ([[5]], [[0]])"
  by (simp add: create_grid_def np_arange_def arange_length_def arange_values_def
      np_meshgrid_def Let_def upt_rec)

lemma create_grid_refused:
  "create_grid (\<lambda>v. v) (\<lambda>n. Some MemoryError) 0 20 0 10 10 = Inl MemoryError"
  by (simp add: create_grid_def np_arange_def arange_length_def Let_def)


section \<open>The field evaluator\<close>

lemma signal_strength_model_value:
  "\<exists>p. signal_strength_model distance tx frequency_mhz gain env = Some p"
proof (cases "0 < distance \<and> 0 < frequency_mhz")
  case True
  then show ?thesis
    by (simp add: signal_strength_model_pos)
next
  case False
  then show ?thesis
    by (auto simp add: signal_strength_model_def)
qed

lemma rect_lengths:
  assumes "rect a" "i < length a"
  shows "length (a ! i) = snd (np_shape a)"
  using assms by (simp add: rect_def list_all_length)

lemma shape_one_one:
  assumes "np_shape a = (1, 1)"
  shows "a = [[a ! 0 ! 0]]"
proof -
  obtain r where a: "a = [r]" and r: "length r = 1"
    using assms by (cases a) (auto simp add: np_shape_def)
  from r obtain v where "r = [v]"
    by (cases r) auto
  then show ?thesis
    using a by simp
qed

lemma map2_map2_lengths:
  assumes "rect xx" "rect yy" "np_shape xx = np_shape yy"
  shows "map length (map2 (map2 f) xx yy) = map length xx"
proof (rule nth_equalityI)
  have len: "length xx = length yy"
    using assms(3) by (simp add: np_shape_def)
  show "length (map length (map2 (map2 f) xx yy)) = length (map length xx)"
    using len by simp
  fix i assume "i < length (map length (map2 (map2 f) xx yy))"
  then have i: "i < length xx" "i < length yy"
    using len by simp_all
  have "length (xx ! i) = length (yy ! i)"
    using rect_lengths [OF assms(1) i(1)] rect_lengths [OF assms(2) i(2)] assms(3) by simp
  then show "map length (map2 (map2 f) xx yy) ! i = map length xx ! i"
    using i by simp
qed

text \<open>
  With a float transmit power every result is a float, and the field is the grid of
  the results: its entry at each cell is \<open>signal_strength_model\<close> applied to the
  Euclidean distance from the transmitter position to the cell, the field has the
  rows and columns of the grid, and no entry is \<open>nan\<close>.
\<close>

lemma simulate_signal_strength_float_power:
  assumes "rect xx" "rect yy" "np_shape xx = np_shape yy" "0 < np_size xx"
    and "base_station_params ''x'' = Some bs_x" "base_station_params ''y'' = Some bs_y"
  shows "\<exists>field.
      simulate_signal_strength (xx, yy) base_station_params (PyFloat transmit_power_dbm)
        frequency_mhz antenna_gain_dbi environment_type = Inr field \<and>
      length field = length xx \<and>
      (\<forall>i < length xx.
         length (field ! i) = length (xx ! i) \<and>
         (\<forall>j < length (xx ! i).
            field ! i ! j =
              signal_strength_model (sqrt ((xx ! i ! j - bs_x)\<^sup>2 + (yy ! i ! j - bs_y)\<^sup>2))
                transmit_power_dbm frequency_mhz antenna_gain_dbi environment_type \<and>
            field ! i ! j \<noteq> None))"
proof -
  define f where "f = (\<lambda>x y. sqrt ((x - bs_x)\<^sup>2 + (y - bs_y)\<^sup>2))"
  define g where "g = (\<lambda>distance. signal_strength_model distance transmit_power_dbm
     frequency_mhz antenna_gain_dbi environment_type)"
  define distances where "distances = map2 (map2 f) xx yy"
  have len: "length xx = length yy"
    using assms(3) by (simp add: np_shape_def)
  have one: "[[f (xx ! 0 ! 0) (yy ! 0 ! 0)]] = distances"
    if "np_shape xx = (1, 1)" "np_shape yy = (1, 1)"
  proof -
    have "map2 (map2 f) [[xx ! 0 ! 0]] [[yy ! 0 ! 0]] = [[f (xx ! 0 ! 0) (yy ! 0 ! 0)]]"
      by simp
    then show ?thesis
      unfolding distances_def using shape_one_one [OF that(1)] shape_one_one [OF that(2)]
      by metis
  qed
  have lens: "map length distances = map length xx"
    unfolding distances_def using assms(1-3) by (rule map2_map2_lengths)
  have "np_size distances = np_size xx"
    by (simp add: np_size_def length_concat lens)
  then have size: "np_size distances \<noteq> 0"
    using assms(4) by simp
  have dist: "(if np_shape xx = (1, 1) \<and> np_shape yy = (1, 1)
                then [[sqrt ((xx ! 0 ! 0 - bs_x)\<^sup>2 + (yy ! 0 ! 0 - bs_y)\<^sup>2)]]
                else map2 (map2 (\<lambda>x y. sqrt ((x - bs_x)\<^sup>2 + (y - bs_y)\<^sup>2))) xx yy) = distances"
  proof (cases "np_shape xx = (1, 1) \<and> np_shape yy = (1, 1)")
    case True
    show ?thesis
      unfolding if_P [OF True]
      using one [OF conjunct1 [OF True] conjunct2 [OF True]] unfolding f_def .
  next
    case False
    show ?thesis
      unfolding if_not_P [OF False] distances_def f_def by (rule refl)
  qed
  obtain first rest where first: "concat distances = first # rest"
    using size by (cases "concat distances") (simp_all add: np_size_def)
  have run: "simulate_signal_strength (xx, yy) base_station_params (PyFloat transmit_power_dbm)
      frequency_mhz antenna_gain_dbi environment_type = Inr (map (map g) distances)"
    unfolding simulate_signal_strength_def Let_def prod.case assms(5,6) option.case dist
    by (simp add: np_vectorize_def first result_is_int_def g_def)
  have rows: "length (map (map g) distances) = length xx"
    using len by (simp add: distances_def)
  have entries: "length (map (map g) distances ! i) = length (xx ! i) \<and>
         (\<forall>j < length (xx ! i).
            map (map g) distances ! i ! j = g (f (xx ! i ! j) (yy ! i ! j)) \<and>
            map (map g) distances ! i ! j \<noteq> None)" if i: "i < length xx" for i
  proof -
    have iy: "i < length yy" using i len by simp
    have eq: "length (xx ! i) = length (yy ! i)"
      using rect_lengths [OF assms(1) i] rect_lengths [OF assms(2) iy] assms(3) by simp
    have row: "map (map g) distances ! i = map g (map2 f (xx ! i) (yy ! i))"
      using i iy by (simp add: distances_def)
    have "g d \<noteq> None" for d
      using signal_strength_model_value [of d transmit_power_dbm frequency_mhz
          antenna_gain_dbi environment_type] by (auto simp add: g_def)
    then show ?thesis
      using eq by (simp add: row)
  qed
  show ?thesis
    using run rows entries unfolding f_def g_def by blast
qed

lemma sqrt_100: "sqrt 100 = 10"
  using real_sqrt_abs [of 10] by simp

lemma additional_loss_rural_10: "additional_loss ''rural_macro'' 10 1000 = 0"
proof -
  have "log 10 (11 / 1000) \<le> log 10 (1 / 10)"
    by (subst log_le_cancel_iff) simp_all
  also have "\<dots> = - 1"
    by (simp add: log_divide)
  finally have "3 + 5 * log 10 (11 / 1000) \<le> 0"
    by simp
  then show ?thesis
    by (simp add: additional_loss_rural_macro max_def)
qed

lemma power_at_10: "signal_strength_model 10 40 1000 17 ''rural_macro'' = Some (91 / 20)"
  by (simp add: signal_strength_model_pos additional_loss_rural_10 log10_1000)

lemma create_grid_row: "create_grid (\<lambda>v. v) (\<lambda>n. None) 0 10 0 0 10 = Inr ([[0, 10]], [[0, 0]])"
  by (simp add: create_grid_def np_arange_def arange_length_def arange_values_def
      np_meshgrid_def Let_def upt_rec)

lemma simulate_signal_strength_float_example:
  "simulate_signal_strength ([[0, 10]], [[0, 0]]) [''x'' \<mapsto> 0, ''y'' \<mapsto> 0] (PyFloat 40) 1000 17
     ''rural_macro'' = Inr [[Some (- 160), Some (91 / 20)]]"
proof -
  have zero: "signal_strength_model 0 40 1000 17 ''rural_macro'' = Some (- 160)"
    by (simp add: signal_strength_model_def)
  show ?thesis
    by (simp add: simulate_signal_strength_def np_shape_def np_vectorize_def result_is_int_def
        sqrt_100 zero power_at_10)
qed

text \<open>
  C7. The claim: for every grid and transmitter configuration the entry of the field
  at each cell equals \<open>signal_strength_model\<close> applied to the distance of the cell. The
  code misses it for an integer transmit power whose first cell is a sentinel cell:
  \<open>np.vectorize\<close> is called without \<open>otypes\<close>, takes the integer type of the first
  result for the whole field and truncates the other entries. On the grid of
  \<open>create_grid(0, 10, 0, 0, 10)\<close>, transmitter at \<open>(0, 0)\<close>, power \<open>40\<close> (an int),
  \<open>1000\<close> MHz, gain \<open>17\<close>, \<open>rural_macro\<close>, the entry at distance \<open>10\<close> is \<open>4\<close>, and
  \<open>signal_strength_model\<close> gives \<open>4.55\<close> there.
\<close>

theorem simulate_signal_strength_int_power:
  "simulate_signal_strength ([[0, 10]], [[0, 0]]) [''x'' \<mapsto> 0, ''y'' \<mapsto> 0] (PyInt 40) 1000 17
     ''rural_macro'' = Inr [[Some (- 160), Some 4]] \<and>
   signal_strength_model (sqrt ((10 - 0)\<^sup>2 + (0 - 0)\<^sup>2)) 40 1000 17 ''rural_macro''
     = Some (91 / 20)"
proof -
  have zero: "signal_strength_model 0 40 1000 17 ''rural_macro'' = Some (- 160)"
    by (simp add: signal_strength_model_def)
  have "py_int (91 / 20) = 4" and "py_int (- 160) = - 160"
    by (simp_all add: py_int_def)
  then show ?thesis
    by (simp add: simulate_signal_strength_def np_shape_def np_vectorize_def result_is_int_def
        sqrt_100 zero power_at_10)
qed

section \<open>The quality tiers\<close>

lemma tier_partition:
  "length (filter (\<lambda>v. np_ge v (- 80)) xs)
   + length (filter (\<lambda>v. np_ge v (- 95) \<and> np_lt v (- 80)) xs)
   + length (filter (\<lambda>v. np_ge v (- 105) \<and> np_lt v (- 95)) xs)
   + length (filter (\<lambda>v. np_ge v (- 115) \<and> np_lt v (- 105)) xs)
   + length (filter (\<lambda>v. np_lt v (- 115)) xs)
   = length (filter (\<lambda>v. \<not> np_isnan v) xs)"
proof (induction xs)
  case Nil
  show ?case by simp
next
  case (Cons v xs)
  show ?case
  proof (cases v)
    case None
    then show ?thesis
      using Cons.IH by (simp add: np_ge_def np_lt_def np_isnan_def)
  next
    case (Some r)
    consider "- 80 \<le> r" | "- 95 \<le> r" "r < - 80" | "- 105 \<le> r" "r < - 95"
      | "- 115 \<le> r" "r < - 105" | "r < - 115"
      by linarith
    then show ?thesis
      using Cons.IH Some by cases (simp_all add: np_ge_def np_lt_def np_isnan_def)
  qed
qed

lemma report_None: "(generate_analysis_report a = None) = list_all np_isnan (concat a)"
proof (cases "concat a")
  case Nil
  show ?thesis
    by (simp add: generate_analysis_report_def np_size_def Nil)
next
  case (Cons v vs)
  show ?thesis
    by (simp add: generate_analysis_report_def np_size_def Cons Let_def)
qed

lemma sum_percentages:
  fixes n :: real
  shows "c1 / n * 100 + (c2 / n * 100 + (c3 / n * 100 + (c4 / n * 100 + c5 / n * 100)))
       = (c1 + c2 + c3 + c4 + c5) / n * 100"
  by (simp add: add_divide_distrib distrib_right)

text \<open>
  C3, as stated: the percentage of a tier is its count over the number of finite
  entries, so that the percentages sum to \<open>100\<close> whenever one entry is finite. The code
  divides by \<open>strengths_data.size\<close>, which counts the \<open>nan\<close> entries too: on a field of
  one \<open>nan\<close> and the value \<open>-70\<close> the only finite entry is excellent, its percentage is
  \<open>50\<close>, and the five percentages sum to \<open>50\<close>.
\<close>

theorem tier_percentages_finite_total_counterexample:
  "generate_analysis_report [[None, Some (- 70)]] =
     Some [(''excellent'', 1, 50), (''good'', 0, 0), (''fair'', 0, 0), (''marginal'', 0, 0),
           (''poor'', 0, 0)]"
  by (simp add: generate_analysis_report_def cat_counts_def np_count_def np_ge_def np_lt_def
      np_isnan_def np_size_def)

text \<open>
  C3, amended. The report computes each quality tier's percentage as
  \<open>count / total_points * 100\<close>, where \<open>total_points\<close> is the number of all entries of
  the field, \<open>nan\<close> entries included. The five percentages sum to \<open>100\<close> times the
  share of the entries that are not \<open>nan\<close>; for every field without \<open>nan\<close> entries for
  which a table is produced they sum to \<open>100\<close>. No table is produced exactly when the
  field has no finite value (it is empty or all \<open>nan\<close>).
\<close>

theorem tier_percentages:
  "(generate_analysis_report a = None) = list_all np_isnan (concat a) \<and>
   (\<forall>rows. generate_analysis_report a = Some rows \<longrightarrow>
      rows = map (\<lambda>(name, count). (name, count, real count / real (np_size a) * 100))
               (cat_counts a) \<and>
      sum_list (map (\<lambda>(name, count, percentage). percentage) rows)
        = real (length (filter (\<lambda>v. \<not> np_isnan v) (concat a))) / real (np_size a) * 100 \<and>
      (list_all (\<lambda>v. \<not> np_isnan v) (concat a) \<longrightarrow>
         sum_list (map (\<lambda>(name, count, percentage). percentage) rows) = 100))"
proof (intro conjI allI impI)
  show "(generate_analysis_report a = None) = list_all np_isnan (concat a)"
    by (rule report_None)
next
  fix rows assume r: "generate_analysis_report a = Some rows"
  then have size: "0 < np_size a"
    by (simp add: generate_analysis_report_def split: if_splits)
  show rows: "rows = map (\<lambda>(name, count). (name, count, real count / real (np_size a) * 100))
               (cat_counts a)"
    using r size by (simp add: generate_analysis_report_def Let_def split: if_splits)
  have "sum_list (map (\<lambda>(name, count, percentage). percentage) rows)
      = real (length (filter (\<lambda>v. np_ge v (- 80)) (concat a))
   + length (filter (\<lambda>v. np_ge v (- 95) \<and> np_lt v (- 80)) (concat a))
   + length (filter (\<lambda>v. np_ge v (- 105) \<and> np_lt v (- 95)) (concat a))
   + length (filter (\<lambda>v. np_ge v (- 115) \<and> np_lt v (- 105)) (concat a))
   + length (filter (\<lambda>v. np_lt v (- 115)) (concat a))) / real (np_size a) * 100"
    unfolding rows by (simp add: cat_counts_def np_count_def add_divide_distrib)
  then show total: "sum_list (map (\<lambda>(name, count, percentage). percentage) rows)
        = real (length (filter (\<lambda>v. \<not> np_isnan v) (concat a))) / real (np_size a) * 100"
    unfolding tier_partition .
  assume "list_all (\<lambda>v. \<not> np_isnan v) (concat a)"
  then have "filter (\<lambda>v. \<not> np_isnan v) (concat a) = concat a"
    by (simp add: list_all_iff)
  then show "sum_list (map (\<lambda>(name, count, percentage). percentage) rows) = 100"
    using size unfolding total by (simp add: np_size_def)
qed

lemma report_two:
  "generate_analysis_report [[Some (- 70), Some (- 100)]] =
     Some [(''excellent'', 1, 50), (''good'', 0, 0), (''fair'', 1, 50), (''marginal'', 0, 0),
           (''poor'', 0, 0)]"
  by (simp add: generate_analysis_report_def cat_counts_def np_count_def np_ge_def np_lt_def
      np_isnan_def np_size_def)

theorem tier_percentages_witness:
  "generate_analysis_report [[Some (- 70), Some (- 100)]] =
     Some [(''excellent'', 1, 50), (''good'', 0, 0), (''fair'', 1, 50), (''marginal'', 0, 0),
           (''poor'', 0, 0)] \<and>
   list_all (\<lambda>v. \<not> np_isnan v) (concat [[Some (- 70), Some (- 100)]]) \<and>
   sum_list (map (\<lambda>(name, count, percentage). percentage)
     [(''excellent'', 1, 50), (''good'', 0, 0), (''fair'', 1, 50), (''marginal'', 0, 0),
      (''poor'', 0 :: nat, 0 :: real)]) = 100"
proof -
  have n: "list_all (\<lambda>v. \<not> np_isnan v) (concat [[Some (- 70), Some (- 100)]])"
    by (simp add: np_isnan_def)
  show ?thesis
    using report_two n tier_percentages [of "[[Some (- 70), Some (- 100)]]"] by blast
qed

section \<open>The empirical distribution\<close>

lemma sorted_yvals:
  assumes "0 < c"
  shows "sorted (map (\<lambda>r. real r / real c) [0 ..< n])"
  by (auto simp add: sorted_iff_nth_mono divide_right_mono)

lemma cdf_None: "(plot_cdf_results a = None) = list_all np_isnan (concat a)"
proof -
  have "([r. Some r \<leftarrow> xs] = []) = list_all np_isnan xs" for xs :: "npfloat list"
    by (induction xs) (auto simp add: np_isnan_def split: option.splits)
  then have flat: "([r. Some r \<leftarrow> concat a] = []) = list_all np_isnan (concat a)" .
  show ?thesis
  proof (cases "concat a")
    case Nil
    show ?thesis
      by (simp add: plot_cdf_results_def np_size_def Nil)
  next
    case (Cons v vs)
    have "list_all np_isnan (concat a)" if "[r. Some r \<leftarrow> concat a] = []"
      using that flat by blast
    then show ?thesis
      unfolding plot_cdf_results_def np_size_def Let_def
      by (auto simp add: Cons simp del: concat_eq_Nil_conv)
  qed
qed

text \<open>
  C8. The curve sorts all finite values of the field in ascending order and gives the
  value of rank \<open>r\<close> (counted from \<open>0\<close>) the probability \<open>r / (N - 1)\<close> when \<open>N > 1\<close>, and
  the probability \<open>0\<close> when \<open>N = 1\<close>. Hence the probabilities do not decrease along the
  sorted values and, for \<open>N > 1\<close>, the smallest value has probability \<open>0\<close> and the
  largest has probability \<open>1\<close>. A curve is produced exactly when the field has a finite
  value.
\<close>

theorem cdf_points:
  "(plot_cdf_results a = None) = list_all np_isnan (concat a) \<and>
   (\<forall>sorted_data yvals. plot_cdf_results a = Some (sorted_data, yvals) \<longrightarrow>
      sorted sorted_data \<and>
      mset sorted_data = mset [r. Some r \<leftarrow> concat a] \<and>
      0 < length sorted_data \<and>
      length yvals = length sorted_data \<and>
      (1 < length sorted_data \<longrightarrow>
         (\<forall>r < length sorted_data. yvals ! r = real r / real (length sorted_data - 1))) \<and>
      (length sorted_data = 1 \<longrightarrow> yvals = [0]) \<and>
      sorted yvals \<and>
      (1 < length sorted_data \<longrightarrow> yvals ! 0 = 0 \<and> last yvals = 1))"
proof (intro conjI allI impI)
  show "(plot_cdf_results a = None) = list_all np_isnan (concat a)"
    by (rule cdf_None)
next
  fix sorted_data yvals
  assume r: "plot_cdf_results a = Some (sorted_data, yvals)"
  define data_flat where "data_flat = [r. Some r \<leftarrow> concat a]"
  define c where "c = (if length sorted_data > 1 then length sorted_data - 1 else 1)"
  have s: "sorted_data = sort data_flat" and ne: "data_flat \<noteq> []"
    and y: "yvals = map (\<lambda>r. real r / real c) [0 ..< length sorted_data]"
    using r by (auto simp add: plot_cdf_results_def Let_def data_flat_def c_def split: if_splits)
  show "sorted sorted_data" by (simp add: s)
  show "mset sorted_data = mset [r. Some r \<leftarrow> concat a]" by (simp add: s data_flat_def)
  show pos: "0 < length sorted_data" using ne by (simp add: s)
  show len: "length yvals = length sorted_data" by (simp add: y)
  have c: "0 < c" by (simp add: c_def)
  show "sorted yvals" unfolding y using c by (rule sorted_yvals)
  show "yvals = [0]" if "length sorted_data = 1"
    using that by (simp add: y)
  have c1: "c = length sorted_data - 1" if "1 < length sorted_data"
    using that by (simp add: c_def)
  show "yvals ! r = real r / real (length sorted_data - 1)"
    if "1 < length sorted_data" "r < length sorted_data" for r
    using that by (simp add: y c1)
  show "yvals ! 0 = 0" if "1 < length sorted_data"
    using pos by (simp add: y)
  show "last yvals = 1" if many: "1 < length sorted_data"
  proof -
    have "yvals \<noteq> []"
      using pos len by auto
    then have "last yvals = yvals ! (length yvals - 1)"
      by (rule last_conv_nth)
    then have "last yvals = yvals ! (length sorted_data - 1)"
      unfolding len .
    also have "\<dots> = real (length sorted_data - 1) / real c"
      using pos by (simp add: y)
    also have "\<dots> = 1"
      using many by (simp add: c1)
    finally show ?thesis .
  qed
qed

lemma cdf_example:
  "plot_cdf_results [[Some 3, None], [Some 1, Some 2]] = Some ([1, 2, 3], [0, 1 / 2, 1])"
  by (simp add: plot_cdf_results_def np_size_def np_isnan_def Let_def upt_rec)

theorem cdf_points_witness:
  "plot_cdf_results [[Some 3, None], [Some 1, Some 2]] = Some ([1, 2, 3], [0, 1 / 2, 1]) \<and>
   sorted [1, 2, 3 :: real] \<and>
   mset [1, 2, 3 :: real] = mset [r. Some r \<leftarrow> concat [[Some 3, None], [Some 1, Some 2]]] \<and>
   1 < length [1, 2, 3 :: real] \<and>
   [0, 1 / 2, 1 :: real] ! 0 = real 0 / real (length [1, 2, 3 :: real] - 1) \<and>
   [0, 1 / 2, 1 :: real] ! 1 = real 1 / real (length [1, 2, 3 :: real] - 1) \<and>
   [0, 1 / 2, 1 :: real] ! 2 = real 2 / real (length [1, 2, 3 :: real] - 1) \<and>
   sorted [0, 1 / 2, 1 :: real] \<and>
   [0, 1 / 2, 1 :: real] ! 0 = 0 \<and> last [0, 1 / 2, 1 :: real] = 1 \<and>
   plot_cdf_results [[Some 7, None]] = Some ([7], [0]) \<and> length [7 :: real] = 1"
proof -
  have single: "plot_cdf_results [[Some 7, None]] = Some ([7], [0])"
    by (simp add: plot_cdf_results_def np_size_def np_isnan_def Let_def)
  have many: "1 < length [1, 2, 3 :: real]"
    and ranks: "0 < length [1, 2, 3 :: real]" "1 < length [1, 2, 3 :: real]"
      "2 < length [1, 2, 3 :: real]"
    by simp_all
  show ?thesis
    using cdf_example single many ranks cdf_points [of "[[Some 3, None], [Some 1, Some 2]]"]
    by simp
qed

end
